theory Spec2Isabelle
  imports Complex_Main
begin

section \<open>Common notions\<close>

text \<open>
  The services of the ingestion fleet are TypeScript classes with mutable fields. Each class
  becomes a record of its fields and each method a function from the state before the call to
  the state after it. Wall-clock reads (\<^verbatim>\<open>Date.now()\<close>, \<^verbatim>\<open>new Date()\<close>) are an explicit
  argument \<open>now\<close>, in epoch milliseconds; one call of a method reads one instant.
\<close>

datatype priority = High | Medium | Low

datatype task_kind = Poll | Idle | HealthCheck

datatype error = Error string | RangeError string

text \<open>Decimal rendering of a number inside a template string.\<close>

definition digit_char :: "nat \<Rightarrow> char" where
  "digit_char d = char_of (48 + d)"

fun show_nat :: "nat \<Rightarrow> string" where
  "show_nat n = (if n < 10 then [digit_char n] else show_nat (n div 10) @ [digit_char (n mod 10)])"

declare show_nat.simps [simp del]

definition show_int :: "int \<Rightarrow> string" where
  "show_int i = (if i < 0 then CHR ''-'' # show_nat (nat (- i)) else show_nat (nat i))"

section \<open>Scheduler (polling-scheduler.service.ts)\<close>

text \<open>
  \<^verbatim>\<open>EmailAccountsCredentials\<close>: the fields the scheduler and the workers read. Credentials and
  SMTP settings are carried along by the source but never inspected by the modelled code.
\<close>

record EmailAccountsCredentials =
  acct_id :: string
  acct_email :: string
  imapHost :: string
  imapPort :: nat
  acct_isActive :: bool

text \<open>
  \<^verbatim>\<open>PollingSchedule\<close>. Intervals and instants are integers (milliseconds). The success rate
  is a JavaScript double in the source; the model computes with exact rationals.
\<close>

record PollingSchedule =
  accountId :: string
  account :: EmailAccountsCredentials
  priority :: priority
  interval :: int
  lastPolled :: int
  nextPoll :: int
  emailVolume :: priority
  successRate :: rat
  consecutiveFailures :: nat
  maxFailures :: nat
  isActive :: bool
  supportsIdle :: bool
  idleEnabled :: bool
  lastIdleAttempt :: int
  idleFailures :: nat
  maxIdleFailures :: nat

text \<open>
  The scheduler's two maps. A pending \<^verbatim>\<open>setTimeout\<close> of \<^verbatim>\<open>pollingTimers\<close> is the instant at
  which it fires.
\<close>

record PollingScheduler =
  schedules :: "string \<rightharpoonup> PollingSchedule"
  pollingTimers :: "string \<rightharpoonup> int"

definition baseIntervals :: "priority \<Rightarrow> int" where
  "baseIntervals p = (case p of High \<Rightarrow> 60000 | Medium \<Rightarrow> 300000 | Low \<Rightarrow> 900000)"


text \<open>\<^verbatim>\<open>String.prototype.toLowerCase\<close> and \<^verbatim>\<open>includes\<close>, on ASCII host names.\<close>

definition lower_char :: "char \<Rightarrow> char" where
  "lower_char c =
     (let n = (of_char c :: nat) in if 65 \<le> n \<and> n \<le> 90 then char_of (n + 32) else c)"

definition toLowerCase :: "string \<Rightarrow> string" where
  "toLowerCase s = map lower_char s"

fun includes_str :: "string \<Rightarrow> string \<Rightarrow> bool" where
  "includes_str [] sub = (sub = [])"
| "includes_str (c # cs) sub = (take (length sub) (c # cs) = sub \<or> includes_str cs sub)"

definition idleSupportingProviders :: "string list" where
  "idleSupportingProviders =
     [''gmail.com'', ''outlook.office365.com'', ''imap.mail.yahoo.com'', ''zoho.com'',
      ''protonmail.com'']"

definition nonIdleProviders :: "string list" where
  "nonIdleProviders = [''mailscale.com'', ''shared-hosting.com'', ''cpanel.com'']"

definition detectIdleSupport :: "EmailAccountsCredentials \<Rightarrow> bool" where
  "detectIdleSupport a =
     (let host = toLowerCase (imapHost a) in
      if list_ex (includes_str host) nonIdleProviders then False
      else if list_ex (includes_str host) idleSupportingProviders then True
      else True)"

definition removeAccount :: "string \<Rightarrow> PollingScheduler \<Rightarrow> PollingScheduler" where
  "removeAccount aid st =
     st\<lparr>pollingTimers := (pollingTimers st)(aid := None),
        schedules := (schedules st)(aid := None)\<rparr>"

definition scheduleNextPoll :: "int \<Rightarrow> string \<Rightarrow> PollingScheduler \<Rightarrow> PollingScheduler" where
  "scheduleNextPoll now aid st =
     (case schedules st aid of
        None \<Rightarrow> st
      | Some schedule \<Rightarrow>
          if \<not> isActive schedule then st
          else let delay = max 0 (nextPoll schedule - now)
               in st\<lparr>pollingTimers := (pollingTimers st)(aid \<mapsto> now + delay)\<rparr>)"

definition addAccount ::
  "int \<Rightarrow> EmailAccountsCredentials \<Rightarrow> priority \<Rightarrow> PollingScheduler \<Rightarrow> PollingScheduler" where
  "addAccount now a p st =
     (let aid = acct_id a;
          st1 = removeAccount aid st;
          baseInterval = baseIntervals p;
          supports = detectIdleSupport a;
          schedule = \<lparr>accountId = aid, account = a, priority = p, interval = baseInterval,
                      lastPolled = 0, nextPoll = now + baseInterval, emailVolume = Low,
                      successRate = 1, consecutiveFailures = 0, maxFailures = 3,
                      isActive = True, supportsIdle = supports, idleEnabled = supports,
                      lastIdleAttempt = 0, idleFailures = 0, maxIdleFailures = 3\<rparr>;
          st2 = st1\<lparr>schedules := (schedules st1)(aid \<mapsto> schedule)\<rparr>
      in scheduleNextPoll now aid st2)"

definition handleAccountFailure :: "int \<Rightarrow> string \<Rightarrow> PollingScheduler \<Rightarrow> PollingScheduler" where
  "handleAccountFailure now aid st =
     (case schedules st aid of
        None \<Rightarrow> st
      | Some schedule \<Rightarrow>
          let s1 = schedule\<lparr>interval := min (interval schedule * 2) 3600000\<rparr>;
              s2 = s1\<lparr>nextPoll := now + interval s1\<rparr>;
              s3 = s2\<lparr>priority := Low\<rparr>
          in scheduleNextPoll now aid (st\<lparr>schedules := (schedules st)(aid \<mapsto> s3)\<rparr>))"

text \<open>
  \<^verbatim>\<open>executePoll\<close>. The body of the \<^verbatim>\<open>try\<close> block hands a task to the worker pool; the
  argument \<open>added\<close> is what \<^verbatim>\<open>workerPool.addTask\<close> did: \<open>Inr taskId\<close> when it returned,
  \<open>Inl e\<close> when it threw, which is what sends control to the \<^verbatim>\<open>catch\<close> block. The kind of
  task chosen is \<open>pollTaskKind\<close>; \<^verbatim>\<open>lastIdleAttempt\<close> is stamped before the task is handed over.
\<close>

definition pollTaskKind :: "int \<Rightarrow> PollingSchedule \<Rightarrow> task_kind" where
  "pollTaskKind now schedule =
     (if idleEnabled schedule \<and> supportsIdle schedule
         \<and> now - lastIdleAttempt schedule > 300000
      then Idle else Poll)"

text \<open>The \<^verbatim>\<open>catch\<close> block of \<^verbatim>\<open>executePoll\<close>, entered with the schedule as the \<^verbatim>\<open>try\<close> block left it.\<close>

definition pollFailed :: "int \<Rightarrow> string \<Rightarrow> PollingSchedule \<Rightarrow> PollingScheduler \<Rightarrow> PollingScheduler" where
  "pollFailed now aid schedule st =
     (let s1 = schedule\<lparr>consecutiveFailures := consecutiveFailures schedule + 1\<rparr>;
          s2 = s1\<lparr>successRate := max 0 (successRate s1 - 2 / 10)\<rparr>;
          s3 = (if idleEnabled s2 \<and> supportsIdle s2
                then (let s = s2\<lparr>idleFailures := idleFailures s2 + 1\<rparr>
                      in if idleFailures s \<ge> maxIdleFailures s then s\<lparr>idleEnabled := False\<rparr> else s)
                else s2)
      in if consecutiveFailures s3 \<ge> maxFailures s3
         then handleAccountFailure now aid (st\<lparr>schedules := (schedules st)(aid \<mapsto> s3)\<rparr>)
         else let backoffDelay = min (interval s3 * 2 ^ consecutiveFailures s3) 300000;
                  s4 = s3\<lparr>nextPoll := now + backoffDelay\<rparr>
              in scheduleNextPoll now aid (st\<lparr>schedules := (schedules st)(aid \<mapsto> s4)\<rparr>))"

definition executePoll ::
  "int \<Rightarrow> error + string \<Rightarrow> string \<Rightarrow> PollingScheduler \<Rightarrow> PollingScheduler" where
  "executePoll now added aid st =
     (case schedules st aid of
        None \<Rightarrow> st
      | Some schedule \<Rightarrow>
          if \<not> isActive schedule then st
          else
            let taskType = pollTaskKind now schedule;
                s0 = (if taskType = Idle then schedule\<lparr>lastIdleAttempt := now\<rparr> else schedule)
            in case added of
                 Inr taskId \<Rightarrow>
                   if taskType = Idle
                   then st\<lparr>schedules := (schedules st)(aid \<mapsto> s0)\<rparr>
                   else
                     let s1 = s0\<lparr>lastPolled := now, nextPoll := now + interval s0,
                                 consecutiveFailures := 0\<rparr>;
                         s2 = s1\<lparr>successRate := min 1 (successRate s1 + 1 / 10)\<rparr>
                     in scheduleNextPoll now aid (st\<lparr>schedules := (schedules st)(aid \<mapsto> s2)\<rparr>)
               | Inl e \<Rightarrow> pollFailed now aid s0 st)"





definition handleIdleTaskCompletion ::
  "int \<Rightarrow> string \<Rightarrow> bool \<Rightarrow> PollingScheduler \<Rightarrow> PollingScheduler" where
  "handleIdleTaskCompletion now aid success st =
     (case schedules st aid of
        None \<Rightarrow> st
      | Some schedule \<Rightarrow>
          if success
          then let s1 = schedule\<lparr>idleFailures := 0, idleEnabled := True\<rparr>;
                   s2 = s1\<lparr>nextPoll := now + 60000\<rparr>
               in scheduleNextPoll now aid (st\<lparr>schedules := (schedules st)(aid \<mapsto> s2)\<rparr>)
          else let s1 = schedule\<lparr>idleFailures := idleFailures schedule + 1\<rparr>
               in if idleFailures s1 \<ge> maxIdleFailures s1
                  then let s2 = s1\<lparr>idleEnabled := False\<rparr>;
                           s3 = s2\<lparr>nextPoll := now + 30000\<rparr>
                       in scheduleNextPoll now aid (st\<lparr>schedules := (schedules st)(aid \<mapsto> s3)\<rparr>)
                  else let retryDelay = min (60000 * 2 ^ idleFailures s1) 300000;
                           s2 = s1\<lparr>nextPoll := now + retryDelay\<rparr>
                       in scheduleNextPoll now aid (st\<lparr>schedules := (schedules st)(aid \<mapsto> s2)\<rparr>))"

definition setIdleEnabled :: "int \<Rightarrow> string \<Rightarrow> bool \<Rightarrow> PollingScheduler \<Rightarrow> PollingScheduler" where
  "setIdleEnabled now aid enabled st =
     (case schedules st aid of
        None \<Rightarrow> st
      | Some schedule \<Rightarrow>
          if \<not> supportsIdle schedule then st
          else let oldEnabled = idleEnabled schedule;
                   s1 = schedule\<lparr>idleEnabled := enabled\<rparr>;
                   s2 = (if enabled then s1\<lparr>idleFailures := 0\<rparr> else s1)
               in if enabled \<and> \<not> oldEnabled
                  then scheduleNextPoll now aid
                         (st\<lparr>schedules := (schedules st)(aid \<mapsto> s2\<lparr>nextPoll := now + 30000\<rparr>)\<rparr>)
                  else st\<lparr>schedules := (schedules st)(aid \<mapsto> s2)\<rparr>)"

text \<open>The scheduler as constructed: no schedules, no timers.\<close>

definition initialScheduler :: PollingScheduler where
  "initialScheduler = \<lparr>schedules = Map.empty, pollingTimers = Map.empty\<rparr>"


section \<open>Worker fleet (worker-pool.service.ts)\<close>


record WorkerTask =
  task_id :: string
  task_accountId :: string
  task_account :: EmailAccountsCredentials
  task_priority :: priority
  task_type :: task_kind
  createdAt :: int
  retryCount :: nat
  maxRetries :: nat

datatype worker_status = WorkerIdle | WorkerBusy | WorkerError

record WorkerStats =
  workerId :: string
  status :: worker_status
  tasksProcessed :: nat
  tasksFailed :: nat
  currentTask :: "WorkerTask option"
  lastActivity :: int
  memoryUsage :: nat
  cpuUsage :: nat

text \<open>
  The pool's fields. \<^verbatim>\<open>workers\<close> is a JavaScript \<^verbatim>\<open>Map\<close>, iterated in insertion order:
  an association list.
\<close>

record WorkerPool =
  workers :: "(string \<times> WorkerStats) list"
  taskQueue :: "WorkerTask list"
  activeWorkers :: int
  maxWorkers :: int
  workerTimeout :: int








text \<open>
  \<^verbatim>\<open>performHealthCheck\<close>: the loop over the workers. The statements of the loop body are kept
  in the source's order: \<^verbatim>\<open>currentTask\<close> is cleared, then tested for the re-queue.
\<close>

fun resetStuckWorkers ::
  "int \<Rightarrow> int \<Rightarrow> (string \<times> WorkerStats) list \<Rightarrow> WorkerTask list \<Rightarrow> int
   \<Rightarrow> (string \<times> WorkerStats) list \<times> WorkerTask list \<times> int" where
  "resetStuckWorkers now tmo [] queue active = ([], queue, active)"
| "resetStuckWorkers now tmo ((wid, worker) # ws) queue active =
     (let timeSinceLastActivity = now - lastActivity worker
      in if timeSinceLastActivity > tmo \<and> status worker = WorkerBusy
         then let w1 = worker\<lparr>status := WorkerIdle\<rparr>;
                  w2 = w1\<lparr>currentTask := None\<rparr>;
                  active1 = active - 1;
                  queue1 = (case currentTask w2 of Some t \<Rightarrow> t # queue | None \<Rightarrow> queue);
                  (ws', queue', active') = resetStuckWorkers now tmo ws queue1 active1
              in ((wid, w2) # ws', queue', active')
         else let (ws', queue', active') = resetStuckWorkers now tmo ws queue active
              in ((wid, worker) # ws', queue', active'))"

definition performHealthCheck :: "int \<Rightarrow> WorkerPool \<Rightarrow> WorkerPool" where
  "performHealthCheck now pool =
     (let (ws, queue, active) =
            resetStuckWorkers now (workerTimeout pool) (workers pool) (taskQueue pool)
              (activeWorkers pool)
      in pool\<lparr>workers := ws, taskQueue := queue, activeWorkers := active\<rparr>)"

section \<open>Sink adapter (aws-sqs.ts)\<close>

text \<open>
  \<^verbatim>\<open>QueuePayload\<close> of types/index.ts. Optional fields (\<^verbatim>\<open>threadId?\<close>, \<^verbatim>\<open>inReplyTo?\<close>,
  \<^verbatim>\<open>references?\<close>) are options. The message body of a submission is
  \<^verbatim>\<open>JSON.stringify(payload)\<close>; the model keeps the payload itself as the body.
\<close>

record QueuePayloadData =
  data_accountId :: string
  data_messageId :: string
  data_internalMessageId :: string
  data_threadId :: "string option"
  data_inReplyTo :: "string option"
  data_references :: "string list option"
  data_timestamp :: string
  data_from :: string
  data_to :: "string list"
  data_subject :: string
  data_text :: string
  data_isReply :: bool
  data_receivedAt :: string

record QueuePayload =
  payload_type :: string
  payload_data :: QueuePayloadData

record MessageAttributeValue =
  StringValue :: string
  DataType :: string

text \<open>
  The request shapes of the SQS client. \<^verbatim>\<open>MessageGroupId\<close> and
  \<^verbatim>\<open>MessageDeduplicationId\<close> are optional in both; \<open>None\<close> is a request that does not carry
  the field.
\<close>

record SendMessageCommand =
  QueueUrl :: string
  MessageBody :: QueuePayload
  MessageGroupId :: "string option"
  MessageDeduplicationId :: "string option"
  MessageAttributes :: "(string \<times> MessageAttributeValue) list"
  DelaySeconds :: nat

record SendMessageBatchRequestEntry =
  entry_Id :: string
  entry_MessageBody :: QueuePayload
  entry_MessageGroupId :: "string option"
  entry_MessageDeduplicationId :: "string option"
  entry_MessageAttributes :: "(string \<times> MessageAttributeValue) list"
  entry_DelaySeconds :: nat

record SendMessageBatchCommand =
  batch_QueueUrl :: string
  Entries :: "SendMessageBatchRequestEntry list"


definition bool_toString :: "bool \<Rightarrow> string" where
  "bool_toString b = (if b then ''true'' else ''false'')"

text \<open>
  The \<^verbatim>\<open>MessageAttributes\<close> object literal, written out identically in \<^verbatim>\<open>sendMessage\<close> and
  in \<^verbatim>\<open>sendMessageBatch\<close>. \<^verbatim>\<open>(text && text.length > 0).toString()\<close> is the empty string for an
  empty text, since \<^verbatim>\<open>'' && x\<close> is \<^verbatim>\<open>''\<close>.
\<close>

definition messageAttributes :: "QueuePayload \<Rightarrow> (string \<times> MessageAttributeValue) list" where
  "messageAttributes payload =
     (let d = payload_data payload in
      [(''MessageType'', \<lparr>StringValue = payload_type payload, DataType = ''String''\<rparr>),
       (''AccountId'', \<lparr>StringValue = data_accountId d, DataType = ''String''\<rparr>),
       (''OriginalMessageId'', \<lparr>StringValue = data_messageId d, DataType = ''String''\<rparr>),
       (''InternalMessageId'', \<lparr>StringValue = data_internalMessageId d, DataType = ''String''\<rparr>),
       (''ThreadId'', \<lparr>StringValue = (case data_threadId d of None \<Rightarrow> [] | Some s \<Rightarrow> s),
                       DataType = ''String''\<rparr>),
       (''IsReply'', \<lparr>StringValue = bool_toString (data_isReply d), DataType = ''String''\<rparr>),
       (''HasTextContent'', \<lparr>StringValue = (if data_text d = [] then [] else ''true''),
                             DataType = ''String''\<rparr>),
       (''TextLength'', \<lparr>StringValue = show_nat (length (data_text d)), DataType = ''String''\<rparr>),
       (''Timestamp'', \<lparr>StringValue = data_timestamp d, DataType = ''String''\<rparr>)])"

text \<open>The command \<^verbatim>\<open>sendMessage\<close> builds, for the queue at \<open>queueUrl\<close> (\<^verbatim>\<open>config.sqs.queueUrl\<close>).\<close>

definition sendMessageCommand :: "string \<Rightarrow> int \<Rightarrow> QueuePayload \<Rightarrow> SendMessageCommand" where
  "sendMessageCommand queueUrl now payload =
     \<lparr>QueueUrl = queueUrl,
      MessageBody = payload,
      MessageGroupId = Some (if data_accountId (payload_data payload) = [] then ''default''
                             else data_accountId (payload_data payload)),
      MessageDeduplicationId = Some (data_accountId (payload_data payload) @ ''_'' @ show_int now),
      MessageAttributes = messageAttributes payload,
      DelaySeconds = 0\<rparr>"

text \<open>
  \<^verbatim>\<open>sendMessage\<close>. The client \<open>sqs\<close> answers a command with the response's
  \<^verbatim>\<open>MessageId\<close> (possibly absent) or throws.
\<close>

definition sendMessage ::
  "string \<Rightarrow> (SendMessageCommand \<Rightarrow> error + string option) \<Rightarrow> int \<Rightarrow> QueuePayload
   \<Rightarrow> error + string" where
  "sendMessage queueUrl sqs now payload =
     (case sqs (sendMessageCommand queueUrl now payload) of
        Inl e \<Rightarrow> Inl e
      | Inr response \<Rightarrow>
          (case response of
             None \<Rightarrow> Inl (Error ''No message ID returned from SQS'')
           | Some mid \<Rightarrow> if mid = [] then Inl (Error ''No message ID returned from SQS'')
                         else Inr mid))"

text \<open>The entries \<^verbatim>\<open>sendMessageBatch\<close> maps the payloads to, index by index.\<close>

definition batchEntry :: "int \<Rightarrow> nat \<Rightarrow> QueuePayload \<Rightarrow> SendMessageBatchRequestEntry" where
  "batchEntry now index payload =
     \<lparr>entry_Id = ''msg_'' @ show_nat index @ ''_'' @ show_int now,
      entry_MessageBody = payload,
      entry_MessageGroupId = None,
      entry_MessageDeduplicationId = None,
      entry_MessageAttributes = messageAttributes payload,
      entry_DelaySeconds = 0\<rparr>"

definition sendMessageBatchCommand ::
  "string \<Rightarrow> int \<Rightarrow> QueuePayload list \<Rightarrow> SendMessageBatchCommand" where
  "sendMessageBatchCommand queueUrl now payloads =
     \<lparr>batch_QueueUrl = queueUrl,
      Entries = map (\<lambda>(index, payload). batchEntry now index payload)
                    (zip [0 ..< length payloads] payloads)\<rparr>"


section \<open>Session monitor (imap-worker.service.ts)\<close>

text \<open>
  A JavaScript \<^verbatim>\<open>Date\<close> is an instant in epoch milliseconds or the invalid date, on which
  \<^verbatim>\<open>toISOString\<close> throws a \<^verbatim>\<open>RangeError\<close>. The rendering of a valid instant as an ISO-8601
  string belongs to the runtime and is the parameter \<open>isoOf\<close> of the functions below.
\<close>

datatype js_date = Date int | InvalidDate

definition toISOString :: "(int \<Rightarrow> string) \<Rightarrow> js_date \<Rightarrow> error + string" where
  "toISOString isoOf d =
     (case d of Date ms \<Rightarrow> Inr (isoOf ms) | InvalidDate \<Rightarrow> Inl (RangeError ''Invalid time value''))"

text \<open>What the IMAP client yields for a fetched message (\<^verbatim>\<open>FetchMessageObject\<close>).\<close>

record EmailAddressObject =
  addr_name :: "string option"
  address :: "string option"

record MessageEnvelopeObject =
  env_date :: "js_date option"
  env_subject :: "string option"
  env_messageId :: "string option"
  env_inReplyTo :: "string option"
  env_from :: "EmailAddressObject list option"
  env_to :: "EmailAddressObject list option"
  env_references :: "string list option"

record FetchMessageObject =
  uid :: nat
  envelope :: "MessageEnvelopeObject option"
  source :: "string option"

text \<open>The object \<^verbatim>\<open>parseEmail\<close> returns.\<close>

record ParsedEmail =
  email_accountId :: string
  messageId :: string
  internalMessageId :: string
  threadId :: string
  inReplyTo :: string
  references :: "string list"
  from_addr :: string
  to_addrs :: "string list"
  subject :: string
  text_body :: string
  receivedAt :: js_date
  timestamp :: string
  isReply :: bool

text \<open>\<^verbatim>\<open>x || ''\<close> on an optional string, and \<^verbatim>\<open>.filter(Boolean)\<close> on a list of them.\<close>

definition or_empty :: "string option \<Rightarrow> string" where
  "or_empty x = (case x of None \<Rightarrow> [] | Some s \<Rightarrow> s)"

definition filterBoolean :: "string option list \<Rightarrow> string list" where
  "filterBoolean xs = filter (\<lambda>s. s \<noteq> []) (map or_empty xs)"

definition parseEmail ::
  "(int \<Rightarrow> string) \<Rightarrow> int \<Rightarrow> FetchMessageObject \<Rightarrow> string \<Rightarrow> error + ParsedEmail" where
  "parseEmail isoOf now message aid =
     (case envelope message of
        None \<Rightarrow>
          Inr \<lparr>email_accountId = aid, messageId = [],
               internalMessageId = aid @ ''_'' @ show_nat (uid message) @ ''_'' @ show_int now,
               threadId = [], inReplyTo = [], references = [], from_addr = [], to_addrs = [],
               subject = [], text_body = or_empty (source message), receivedAt = Date now,
               timestamp = isoOf now, isReply = False\<rparr>
      | Some env \<Rightarrow>
          let fromAddress = (case env_from env of
                               None \<Rightarrow> []
                             | Some [] \<Rightarrow> []
                             | Some (a # _) \<Rightarrow> or_empty (address a));
              toAddresses = (case env_to env of
                               None \<Rightarrow> []
                             | Some addrs \<Rightarrow> filterBoolean (map address addrs));
              originalMessageId = or_empty (env_messageId env);
              inReplyTo' = or_empty (env_inReplyTo env);
              references' = (case env_references env of None \<Rightarrow> [] | Some r \<Rightarrow> r);
              isReply' = (inReplyTo' \<noteq> [] \<or> length references' > 0);
              internalMessageId' = aid @ ''_'' @ show_nat (uid message) @ ''_'' @ show_int now;
              date = (case env_date env of None \<Rightarrow> Date now | Some d \<Rightarrow> d)
          in case toISOString isoOf date of
               Inl e \<Rightarrow> Inl e
             | Inr ts \<Rightarrow>
                 Inr \<lparr>email_accountId = aid, messageId = originalMessageId,
                      internalMessageId = internalMessageId', threadId = inReplyTo',
                      inReplyTo = inReplyTo', references = references', from_addr = fromAddress,
                      to_addrs = toAddresses, subject = or_empty (env_subject env),
                      text_body = or_empty (source message), receivedAt = date,
                      timestamp = ts, isReply = isReply'\<rparr>)"













section \<open>Status store adapter (supabase-database.service.ts, imap-service.ts)\<close>

datatype ConnectionStatus = CONNECTING | CONNECTED | IDLE | DISCONNECTED | ERROR | RECONNECTING

text \<open>A row of the table \<^verbatim>\<open>imap_connection_status\<close>: the columns the lookup reads.\<close>

record ImapConnectionStatus =
  emailAccountId :: string
  conn_status :: ConnectionStatus
  conn_isActive :: bool

text \<open>
  The store: the rows of the table, and the error the client reports instead of data when
  the query fails.
\<close>

record StatusStore =
  imap_connection_status :: "ImapConnectionStatus list"
  query_error :: "error option"

text \<open>
  \<^verbatim>\<open>SupabaseDatabaseService.getAccountsNeedingReconnection\<close>: the query
  \<^verbatim>\<open>.select('emailAccountId').eq('isActive', true).in('status', ['error', 'disconnected'])\<close>
  evaluated on the table, and the mapping of its rows to account ids.
\<close>

definition getAccountsNeedingReconnection :: "StatusStore \<Rightarrow> error + string list" where
  "getAccountsNeedingReconnection store =
     (case query_error store of
        Some e \<Rightarrow> Inl e
      | None \<Rightarrow>
          let data = filter (\<lambda>row. conn_isActive row = True
                                   \<and> conn_status row \<in> set [ERROR, DISCONNECTED])
                            (imap_connection_status store)
          in Inr (map emailAccountId data))"

text \<open>
  \<^verbatim>\<open>IMAPService.getAccountsNeedingReconnection\<close>, as far as its result goes: the in-memory
  statuses (a \<^verbatim>\<open>Map\<close>, in insertion order), the clients with the outcome of their \<^verbatim>\<open>noop\<close>
  probe (\<open>True\<close> when it succeeded), then the ids of the store that are not yet listed. A
  failing store lookup is logged and skipped.
\<close>

definition imapService_getAccountsNeedingReconnection ::
  "(string \<times> ImapConnectionStatus) list \<Rightarrow> (string \<times> bool) list \<Rightarrow> StatusStore \<Rightarrow> string list" where
  "imapService_getAccountsNeedingReconnection connectionStatuses clients store =
     (let fromMemory = map fst (filter (\<lambda>(aid, st).
                          (conn_status st = DISCONNECTED \<or> conn_status st = ERROR)
                          \<and> conn_isActive st) connectionStatuses);
          fromClients = map fst (filter (\<lambda>(aid, ok). \<not> ok) clients);
          accountsToReconnect = fromMemory @ fromClients
      in case getAccountsNeedingReconnection store of
           Inl dbError \<Rightarrow> accountsToReconnect
         | Inr dbAccountIds \<Rightarrow>
             foldl (\<lambda>acc aid. if aid \<in> set acc then acc else acc @ [aid])
                   accountsToReconnect dbAccountIds)"

section \<open>Vocabulary of the statements\<close>



definition submittedPayloads :: "SendMessageBatchCommand list \<Rightarrow> QueuePayload list" where
  "submittedPayloads sent = concat (map (\<lambda>command. map entry_MessageBody (Entries command)) sent)"

section \<open>Invariants of the scheduler\<close>

text \<open>
  Every schedule is created by \<^verbatim>\<open>addAccount\<close> with both failure limits set to 3, and no method
  changes them.
\<close>

definition sched_inv :: "PollingScheduler \<Rightarrow> bool" where
  "sched_inv st = (\<forall>aid s. schedules st aid = Some s \<longrightarrow> maxFailures s = 3 \<and> maxIdleFailures s = 3)"

text \<open>IDLE is enabled only where it is supported.\<close>

definition idle_gated :: "PollingScheduler \<Rightarrow> bool" where
  "idle_gated st = (\<forall>aid s. schedules st aid = Some s \<longrightarrow> idleEnabled s \<longrightarrow> supportsIdle s)"

section \<open>Example inputs\<close>


definition mailscale_account :: EmailAccountsCredentials where
  "mailscale_account = \<lparr>acct_id = ''a2'', acct_email = ''user@corp.example'', imapHost = ''IMAP.mailscale.com'',
     imapPort = 993, acct_isActive = True\<rparr>"







definition example_isoOf :: "int \<Rightarrow> string" where
  "example_isoOf ms = ''T'' @ show_int ms"

definition example_envelope :: MessageEnvelopeObject where
  "example_envelope = \<lparr>env_date = Some (Date 900), env_subject = Some ''Re: offer'',
     env_messageId = Some ''<m2@example.org>'', env_inReplyTo = Some ''<m1@example.org>'',
     env_from = Some [\<lparr>addr_name = Some ''Ann'', address = Some ''ann@example.org''\<rparr>],
     env_to = Some [\<lparr>addr_name = None, address = Some ''bob@example.org''\<rparr>,
                    \<lparr>addr_name = Some ''Team'', address = None\<rparr>],
     env_references = Some [''<m1@example.org>'']\<rparr>"

definition example_message :: FetchMessageObject where
  "example_message = \<lparr>uid = 7, envelope = Some example_envelope, source = Some ''raw source''\<rparr>"






definition example_store :: StatusStore where
  "example_store = \<lparr>imap_connection_status =
       [\<lparr>emailAccountId = ''a1'', conn_status = DISCONNECTED, conn_isActive = True\<rparr>,
        \<lparr>emailAccountId = ''a2'', conn_status = RECONNECTING, conn_isActive = True\<rparr>,
        \<lparr>emailAccountId = ''a3'', conn_status = ERROR, conn_isActive = False\<rparr>,
        \<lparr>emailAccountId = ''a4'', conn_status = ERROR, conn_isActive = True\<rparr>],
     query_error = None\<rparr>"

definition reconnecting_store :: StatusStore where
  "reconnecting_store = \<lparr>imap_connection_status =
       [\<lparr>emailAccountId = ''a2'', conn_status = RECONNECTING, conn_isActive = True\<rparr>],
     query_error = None\<rparr>"

section \<open>Properties\<close>

subsection \<open>Scheduler\<close>

lemma scheduleNextPoll_schedules [simp]: "schedules (scheduleNextPoll now aid st) = schedules st"
  by (simp add: scheduleNextPoll_def Let_def split: option.splits)

lemma sched_inv_scheduleNextPoll [simp]: "sched_inv (scheduleNextPoll now aid st) = sched_inv st"
  by (simp add: sched_inv_def)















lemma handleAccountFailure_lookup:
  "schedules st aid = Some s \<Longrightarrow>
   schedules (handleAccountFailure now aid st) aid
     = Some (s\<lparr>interval := min (interval s * 2) 3600000,
               nextPoll := now + min (interval s * 2) 3600000, priority := Low\<rparr>)"
  by (simp add: handleAccountFailure_def Let_def)








text \<open>
  Claim C8. The invariant "\<^verbatim>\<open>idleEnabled\<close> only if \<^verbatim>\<open>supportsIdle\<close>" does not survive
  \<^verbatim>\<open>handleIdleTaskCompletion\<close> with \<^verbatim>\<open>success = true\<close>, which sets \<^verbatim>\<open>idleEnabled\<close> without looking
  at \<^verbatim>\<open>supportsIdle\<close> (\<^verbatim>\<open>setIdleEnabled\<close> does look). An account on a host of the deny-list is
  added (IDLE unsupported and disabled) and a successful IDLE completion is reported for it:
  the entry then has IDLE enabled and unsupported.
\<close>

theorem idle_enabled_without_support:
  "(case schedules (handleIdleTaskCompletion 1000 ''a2'' True
                     (addAccount 0 mailscale_account Medium initialScheduler)) ''a2'' of
      None \<Rightarrow> False
    | Some s \<Rightarrow> idleEnabled s \<and> \<not> supportsIdle s)"
  by code_simp

text \<open>
  The other operations keep the gate: adding an account, \<^verbatim>\<open>setIdleEnabled\<close>, a failed IDLE
  completion and \<^verbatim>\<open>executePoll\<close> all preserve \<open>idle_gated\<close>. The successful IDLE completion
  is the one path that does not.
\<close>

lemma idle_gated_update:
  "idle_gated st \<Longrightarrow> (idleEnabled s \<Longrightarrow> supportsIdle s) \<Longrightarrow>
   idle_gated (st\<lparr>schedules := (schedules st)(aid \<mapsto> s)\<rparr>)"
  by (simp add: idle_gated_def)

lemma idle_gated_lookup:
  "idle_gated st \<Longrightarrow> schedules st aid = Some s \<Longrightarrow> idleEnabled s \<Longrightarrow> supportsIdle s"
  by (simp add: idle_gated_def)

lemma idle_gated_scheduleNextPoll [simp]:
  "idle_gated (scheduleNextPoll now aid st) = idle_gated st"
  by (simp add: idle_gated_def)

lemma idle_gated_addAccount: "idle_gated st \<Longrightarrow> idle_gated (addAccount now a p st)"
  unfolding addAccount_def Let_def
  by (simp add: idle_gated_def removeAccount_def)

lemma idle_gated_setIdleEnabled: "idle_gated st \<Longrightarrow> idle_gated (setIdleEnabled now aid b st)"
  unfolding setIdleEnabled_def Let_def
  by (auto split: option.splits intro!: idle_gated_update)

lemma idle_gated_idle_failed:
  "idle_gated st \<Longrightarrow> idle_gated (handleIdleTaskCompletion now aid False st)"
  unfolding handleIdleTaskCompletion_def Let_def
  by (auto split: option.splits intro!: idle_gated_update dest: idle_gated_lookup)

lemma idle_gated_handleAccountFailure:
  "idle_gated st \<Longrightarrow> idle_gated (handleAccountFailure now aid st)"
  unfolding handleAccountFailure_def Let_def
  by (auto split: option.splits intro!: idle_gated_update dest: idle_gated_lookup)

lemma idle_gated_pollFailed:
  "idle_gated st \<Longrightarrow> (idleEnabled s \<Longrightarrow> supportsIdle s) \<Longrightarrow> idle_gated (pollFailed now aid s st)"
  unfolding pollFailed_def Let_def
  by (auto intro!: idle_gated_update idle_gated_handleAccountFailure)

lemma idle_gated_executePoll: "idle_gated st \<Longrightarrow> idle_gated (executePoll now added aid st)"
  unfolding executePoll_def Let_def
  by (auto split: option.splits sum.splits
           intro!: idle_gated_update idle_gated_pollFailed dest: idle_gated_lookup)

subsection \<open>Worker fleet\<close>

lemma resetStuckWorkers_queue:
  "resetStuckWorkers now tmo ws queue active = (ws', queue', active') \<Longrightarrow> queue' = queue"
  by (induction ws arbitrary: queue active ws' queue' active')
     (auto simp: Let_def split: if_splits prod.splits)

lemma performHealthCheck_queue: "taskQueue (performHealthCheck now pool) = taskQueue pool"
  by (auto simp: performHealthCheck_def Let_def split: prod.splits dest: resetStuckWorkers_queue)










subsection \<open>Sink adapter and status store\<close>

text \<open>The single-message path carries the group key, the deduplication key and the nine attributes.\<close>

lemma attribute_names:
  "map fst (messageAttributes payload) =
     [''MessageType'', ''AccountId'', ''OriginalMessageId'', ''InternalMessageId'', ''ThreadId'',
      ''IsReply'', ''HasTextContent'', ''TextLength'', ''Timestamp'']"
  by (simp add: messageAttributes_def Let_def)

lemma sendMessage_keys:
  "MessageGroupId (sendMessageCommand queueUrl now payload)
     = Some (if data_accountId (payload_data payload) = [] then ''default''
             else data_accountId (payload_data payload))
   \<and> MessageDeduplicationId (sendMessageCommand queueUrl now payload)
     = Some (data_accountId (payload_data payload) @ ''_'' @ show_int now)
   \<and> map fst (MessageAttributes (sendMessageCommand queueUrl now payload))
     = [''MessageType'', ''AccountId'', ''OriginalMessageId'', ''InternalMessageId'', ''ThreadId'',
        ''IsReply'', ''HasTextContent'', ''TextLength'', ''Timestamp'']"
  by (simp add: sendMessageCommand_def attribute_names)

lemma batch_entries_map:
  "map f (Entries (sendMessageBatchCommand queueUrl now payloads))
     = map (\<lambda>(index, payload). f (batchEntry now index payload)) (zip [0 ..< length payloads] payloads)"
  by (simp add: sendMessageBatchCommand_def split_def)


text \<open>
  Claim C9. The batch path, which is the one the session monitor uses, builds entries that carry
  neither a \<^verbatim>\<open>MessageGroupId\<close> nor a \<^verbatim>\<open>MessageDeduplicationId\<close>, for every batch; the
  single-message path sets both (\<open>sendMessage_keys\<close>).
\<close>

theorem batch_entries_without_keys:
  "map entry_MessageGroupId (Entries (sendMessageBatchCommand queueUrl now payloads))
     = replicate (length payloads) None
   \<and> map entry_MessageDeduplicationId (Entries (sendMessageBatchCommand queueUrl now payloads))
     = replicate (length payloads) None"
proof -
  have "map (\<lambda>(index, payload). entry_MessageGroupId (batchEntry now index payload))
          (zip [0 ..< length payloads] payloads) = map (\<lambda>x. None) (zip [0 ..< length payloads] payloads)"
       "map (\<lambda>(index, payload). entry_MessageDeduplicationId (batchEntry now index payload))
          (zip [0 ..< length payloads] payloads) = map (\<lambda>x. None) (zip [0 ..< length payloads] payloads)"
    by (simp_all add: batchEntry_def split_def)
  then show ?thesis
    by (simp add: batch_entries_map map_replicate_const)
qed

text \<open>
  Claim C10, as the code has it. When the query succeeds, the lookup returns exactly the
  account ids of the active rows whose state is \<^verbatim>\<open>disconnected\<close> or \<^verbatim>\<open>error\<close>.
\<close>

theorem reconnection_lookup:
  assumes "query_error store = None"
  shows "\<exists>ids. getAccountsNeedingReconnection store = Inr ids
           \<and> (\<forall>aid. aid \<in> set ids \<longleftrightarrow>
                 (\<exists>row \<in> set (imap_connection_status store).
                    emailAccountId row = aid \<and> conn_isActive row
                    \<and> (conn_status row = DISCONNECTED \<or> conn_status row = ERROR)))"
  using assms by (auto simp: getAccountsNeedingReconnection_def Let_def)

text \<open>Of four rows, the active disconnected one and the active one in error are returned.\<close>

theorem reconnection_lookup_witness:
  "getAccountsNeedingReconnection example_store = Inr [''a1'', ''a4'']"
proof -
  have q: "query_error example_store = None" by (simp add: example_store_def)
  from reconnection_lookup [OF q] obtain ids where
    "getAccountsNeedingReconnection example_store = Inr ids" by blast
  moreover have "getAccountsNeedingReconnection example_store = Inr [''a1'', ''a4'']"
    by (simp add: getAccountsNeedingReconnection_def example_store_def)
  ultimately show ?thesis by simp
qed

text \<open>Claim C10 as stated fails: an active mailbox in state \<^verbatim>\<open>reconnecting\<close> is not returned.\<close>

theorem reconnecting_not_returned:
  "getAccountsNeedingReconnection reconnecting_store = Inr []"
  by (simp add: getAccountsNeedingReconnection_def reconnecting_store_def)

text \<open>
  The lookup of \<^verbatim>\<open>IMAPService\<close> agrees: with the same mailbox \<^verbatim>\<open>reconnecting\<close> in memory and
  its session answering the probe, nothing is listed.
\<close>

lemma imapService_reconnecting_not_listed:
  "imapService_getAccountsNeedingReconnection
     [(''a2'', \<lparr>emailAccountId = ''a2'', conn_status = RECONNECTING, conn_isActive = True\<rparr>)]
     [(''a2'', True)] reconnecting_store = []"
  by (simp add: imapService_getAccountsNeedingReconnection_def getAccountsNeedingReconnection_def
        reconnecting_store_def)

text \<open>
  Claim C5. For a fetched message that carries an envelope whose date is absent or valid,
  \<^verbatim>\<open>parseEmail\<close> builds an envelope whose Message-ID, In-Reply-To, References and Subject are the
  envelope's (empty when absent), whose sender is the address of the first From entry, whose
  recipients are the addresses of the To entries (entries without an address have none to
  list), whose date is the envelope's (the current instant when absent) with the timestamp its
  ISO rendering, whose text is the raw source, and whose \<^verbatim>\<open>isReply\<close> flag holds exactly when
  In-Reply-To or References is non-empty.
\<close>

theorem parseEmail_roundtrip:
  assumes "envelope message = Some env" and "env_date env \<noteq> Some InvalidDate"
  shows "\<exists>e. parseEmail isoOf now message aid = Inr e
           \<and> messageId e = or_empty (env_messageId env)
           \<and> inReplyTo e = or_empty (env_inReplyTo env)
           \<and> references e = (case env_references env of None \<Rightarrow> [] | Some r \<Rightarrow> r)
           \<and> from_addr e = (case env_from env of Some (a # rest) \<Rightarrow> or_empty (address a) | _ \<Rightarrow> [])
           \<and> to_addrs e = (case env_to env of None \<Rightarrow> []
                             | Some addrs \<Rightarrow> filter (\<lambda>s. s \<noteq> []) (map (or_empty \<circ> address) addrs))
           \<and> subject e = or_empty (env_subject env)
           \<and> receivedAt e = (case env_date env of None \<Rightarrow> Date now | Some d \<Rightarrow> d)
           \<and> toISOString isoOf (receivedAt e) = Inr (timestamp e)
           \<and> text_body e = or_empty (source message)
           \<and> (isReply e \<longleftrightarrow> inReplyTo e \<noteq> [] \<or> references e \<noteq> [])"
proof -
  obtain ms where d: "(case env_date env of None \<Rightarrow> Date now | Some d \<Rightarrow> d) = Date ms"
    using assms(2) by (cases "env_date env") (auto intro: js_date.exhaust)
  show ?thesis
    using assms(1) d
    by (auto simp: parseEmail_def Let_def toISOString_def filterBoolean_def
             split: option.splits list.splits)
qed

text \<open>A reply with one reference, two To entries (one without an address) and a date.\<close>

theorem parseEmail_roundtrip_witness:
  "\<exists>e. parseEmail example_isoOf 1000 example_message ''a1'' = Inr e
       \<and> messageId e = ''<m2@example.org>'' \<and> inReplyTo e = ''<m1@example.org>''
       \<and> references e = [''<m1@example.org>''] \<and> from_addr e = ''ann@example.org''
       \<and> to_addrs e = [''bob@example.org''] \<and> subject e = ''Re: offer''
       \<and> receivedAt e = Date 900 \<and> text_body e = ''raw source'' \<and> isReply e"
proof -
  have env: "envelope example_message = Some example_envelope"
    by (simp add: example_message_def)
  have dt: "env_date example_envelope \<noteq> Some InvalidDate"
    by (simp add: example_envelope_def)
  from parseEmail_roundtrip [OF env dt, of example_isoOf 1000 "''a1''"]
  show ?thesis
    by (auto simp: example_envelope_def example_message_def or_empty_def)
qed

subsection \<open>Session monitor\<close>

lemma show_nat_nonempty: "show_nat n \<noteq> []"
  by (subst show_nat.simps) simp








lemma submittedPayloads_append:
  "submittedPayloads (xs @ ys) = submittedPayloads xs @ submittedPayloads ys"
  by (simp add: submittedPayloads_def)









end
